theory Spec2Isabelle
  imports Complex_Main
begin

section \<open>Numbers\<close>

text \<open>
  Python ints are \<open>int\<close>, the result of \<open>len\<close> is a \<open>nat\<close>. A Python float is an IEEE 754
  binary64 number. A finite one is modelled as the real number it denotes, and every
  floating-point operation as the exact operation followed by rounding to the nearest
  binary64 number, a tie going to the even significand.

  \<open>round_half_even\<close> rounds a real to the nearest integer, a tie going to the even one.
\<close>

definition round_half_even :: "real \<Rightarrow> int" where
  "round_half_even y =
     (let f = \<lfloor>y\<rfloor>; d = y - of_int f
      in if d < 1 / 2 then f
         else if 1 / 2 < d then f + 1
         else if even f then f else f + 1)"

text \<open>
  The binary64 numbers near \<open>x\<close> are the integer multiples of \<open>2 powi quantum x\<close>: the
  quantum is the largest exponent \<open>q\<close> between -1074 (subnormal numbers) and 971 (the
  largest binade) with \<open>2 powi (q + 52) \<le> \<bar>x\<bar>\<close>, and -1074 when there is none. It is found
  by counting up from -1074.
\<close>

fun quantum_from :: "nat \<Rightarrow> int \<Rightarrow> real \<Rightarrow> int" where
  "quantum_from 0 q a = q"
| "quantum_from (Suc n) q a = (if 2 powi (q + 53) \<le> a then quantum_from n (q + 1) a else q)"

definition quantum :: "real \<Rightarrow> int" where
  "quantum x = quantum_from 2045 (- 1074) \<bar>x\<bar>"

text \<open>
  \<open>round53 x\<close> is the multiple of the quantum nearest to \<open>x\<close>. Below \<open>2 ^ 1024\<close> in
  magnitude it is the binary64 number that IEEE rounding gives; from \<open>2 ^ 1024\<close> on the
  operation overflows.
\<close>

definition round53 :: "real \<Rightarrow> real" where
  "round53 x = of_int (round_half_even (x / 2 powi quantum x)) * 2 powi quantum x"

text \<open>A decimal literal of the source, or a decimal string read by \<open>float\<close>.\<close>

definition lit :: "real \<Rightarrow> real" where
  "lit x = round53 x"

text \<open>
  The quotient of two floats where only comparisons with small constants read it: a
  quotient that overflows is \<open>inf\<close> or \<open>-inf\<close> in Python and a real of the same sign and of
  magnitude at least \<open>2 ^ 1024\<close> here, on the same side of every threshold in both.
  Every divisor of the source that is computed this way is at least 0.1 or 1, so no
  division by zero arises.
\<close>

definition fdiv :: "real \<Rightarrow> real \<Rightarrow> real" where
  "fdiv a b = round53 (a / b)"

text \<open>
  A float that is returned to the caller is either finite or not (\<open>inf\<close>, \<open>-inf\<close> or
  \<open>nan\<close>). Sums, products and \<open>round\<close> of a float that is not finite are not finite.
\<close>

datatype pyfloat = Finite real | NonFinite

definition to_float :: "real \<Rightarrow> pyfloat" where
  "to_float x = (if \<bar>round53 x\<bar> < 2 ^ 1024 then Finite (round53 x) else NonFinite)"

fun fmul :: "pyfloat \<Rightarrow> pyfloat \<Rightarrow> pyfloat" where
  "fmul (Finite a) (Finite b) = to_float (a * b)"
| "fmul _ _ = NonFinite"

fun fadd :: "pyfloat \<Rightarrow> pyfloat \<Rightarrow> pyfloat" where
  "fadd (Finite a) (Finite b) = to_float (a + b)"
| "fadd _ _ = NonFinite"

text \<open>
  True division of two ints, \<open>a / b\<close> with \<open>b\<close> not zero: the correctly rounded quotient.
  For a quotient beyond the binary64 range Python raises OverflowError where this model
  gives \<open>NonFinite\<close>; the documented infill percentages, 0 to 100, are far from it.
\<close>

definition int_truediv :: "int \<Rightarrow> int \<Rightarrow> pyfloat" where
  "int_truediv a b = to_float (real_of_int a / real_of_int b)"

text \<open>
  \<open>round(x, 2)\<close> of a float: the exact value of \<open>x\<close> is rounded to a whole number of
  hundredths, a tie going to the even one, and the result is the binary64 number nearest
  to that decimal. It is finite whenever \<open>x\<close> is: a binary64 number of magnitude
  \<open>2 ^ 53\<close> or more is an integer and rounds to itself.
\<close>

definition cents :: "real \<Rightarrow> int" where
  "cents x = round_half_even (x * 100)"

fun float_round2 :: "pyfloat \<Rightarrow> pyfloat" where
  "float_round2 (Finite x) = Finite (round53 (real_of_int (cents x) / 100))"
| "float_round2 NonFinite = NonFinite"

text \<open>
  The same rounding without the final conversion to binary64, for the print time
  estimate, which is modelled over the reals (see there).
\<close>

definition py_round2 :: "real \<Rightarrow> real" where
  "py_round2 x = of_int (round_half_even (x * 100)) / 100"

datatype error = ZeroDivisionError

section \<open>compute\_pipeline.py: ModelAnalyzer\<close>

text \<open>
  The mesh comes from the mesh library. The analyzer reads four things of it:
  \<open>len(mesh.faces)\<close>, \<open>len(mesh.vertices)\<close>, \<open>len(mesh.split())\<close> and
  \<open>mesh.is_watertight\<close>.
\<close>

record mesh =
  faces_len :: nat
  vertices_len :: nat
  split_len :: nat
  mesh_is_watertight :: bool

type_synonym bbox = "real \<times> real \<times> real"

record geometry =
  volume_cm3 :: real
  bounding_box :: bbox
  surface_area_cm2 :: real

record quality =
  triangle_count :: nat
  is_watertight :: bool
  shell_count :: nat
  vertex_count :: nat

text \<open>Python's \<open>max\<close> and \<open>min\<close> over the three entries of the bounding box tuple.\<close>

fun tuple_max :: "bbox \<Rightarrow> real" where
  "tuple_max (x, y, z) = max (max x y) z"

fun tuple_min :: "bbox \<Rightarrow> real" where
  "tuple_min (x, y, z) = min (min x y) z"

definition analyze_mesh_quality :: "mesh \<Rightarrow> quality" where
  "analyze_mesh_quality m =
     \<lparr> triangle_count = faces_len m,
       is_watertight = mesh_is_watertight m,
       shell_count = split_len m,
       vertex_count = vertices_len m \<rparr>"

text \<open>
  The body of \<open>compute_complexity_score\<close> up to its \<open>return\<close>: the value of the local
  variable \<open>score\<close> after the five updates. The triangle count is converted to a float
  for the division; the three ratios are float quotients.
\<close>

definition score_before_cap :: "mesh \<Rightarrow> geometry \<Rightarrow> int" where
  "score_before_cap m g =
     (let score = 0;
          tri_density = fdiv (round53 (real (faces_len m))) (max (volume_cm3 g) 1);
          score = (if tri_density > 1000 then score + 2
                   else if tri_density > 500 then score + 1 else score);
          shell_count = split_len m;
          score = (if shell_count > 3 then score + 2
                   else if shell_count > 1 then score + 1 else score);
          bbox = bounding_box g;
          max_dim = tuple_max bbox;
          min_dim = tuple_min bbox;
          aspect_ratio = fdiv max_dim (max min_dim (lit (1 / 10)));
          score = (if aspect_ratio > 10 then score + 2
                   else if aspect_ratio > 5 then score + 1 else score);
          score = (if \<not> mesh_is_watertight m then score + 2 else score);
          sa_vol_ratio = fdiv (surface_area_cm2 g) (max (volume_cm3 g) (lit (1 / 10)));
          score = (if sa_vol_ratio > 50 then score + 2
                   else if sa_vol_ratio > 25 then score + 1 else score)
      in score)"

definition compute_complexity_score :: "mesh \<Rightarrow> geometry \<Rightarrow> int" where
  "compute_complexity_score m g = min (score_before_cap m g) 10"

text \<open>The five measures, as the source computes them in its local variables.\<close>

definition tri_density :: "mesh \<Rightarrow> geometry \<Rightarrow> real" where
  "tri_density m g = fdiv (round53 (real (faces_len m))) (max (volume_cm3 g) 1)"

definition aspect_ratio :: "geometry \<Rightarrow> real" where
  "aspect_ratio g =
     fdiv (tuple_max (bounding_box g)) (max (tuple_min (bounding_box g)) (lit (1 / 10)))"

definition sa_vol_ratio :: "geometry \<Rightarrow> real" where
  "sa_vol_ratio g = fdiv (surface_area_cm2 g) (max (volume_cm3 g) (lit (1 / 10)))"

subsection \<open>The scoring table of the specification\<close>

text \<open>
  The reference of the specification, written from its table: one contribution per
  factor, summed and clamped to at most 10. Its quotients and its constant 0.1 are those
  of the floating-point arithmetic the table is evaluated in.
\<close>

definition density_points :: "geometry \<Rightarrow> quality \<Rightarrow> int" where
  "density_points g q =
     (let r = fdiv (round53 (real (triangle_count q))) (max (volume_cm3 g) 1)
      in if r > 1000 then 2 else if r > 500 then 1 else 0)"

definition shell_points :: "quality \<Rightarrow> int" where
  "shell_points q = (if shell_count q > 3 then 2 else if shell_count q > 1 then 1 else 0)"

definition aspect_points :: "geometry \<Rightarrow> int" where
  "aspect_points g =
     (let r = fdiv (tuple_max (bounding_box g))
                (max (tuple_min (bounding_box g)) (lit (1 / 10)))
      in if r > 10 then 2 else if r > 5 then 1 else 0)"

definition watertight_points :: "quality \<Rightarrow> int" where
  "watertight_points q = (if \<not> is_watertight q then 2 else 0)"

definition surface_points :: "geometry \<Rightarrow> int" where
  "surface_points g =
     (let r = fdiv (surface_area_cm2 g) (max (volume_cm3 g) (lit (1 / 10)))
      in if r > 50 then 2 else if r > 25 then 1 else 0)"

definition reference_score :: "geometry \<Rightarrow> quality \<Rightarrow> int" where
  "reference_score g q =
     min (density_points g q + shell_points q + aspect_points g
          + watertight_points q + surface_points g) 10"

section \<open>pricing\_engine.py: PricingEngine\<close>

record material_profile =
  density :: real
  cost_per_gram :: real

text \<open>
  The engine's attributes. The three numbers are read from the environment when the
  engine is built, so they are parameters here; the material table is the fixed
  dictionary of the constructor.
\<close>

record pricing_engine =
  default_density :: real
  default_cost_per_gram :: real
  fdm_print_speed :: real
  materials :: "(string \<times> material_profile) list"

definition material_table :: "(string \<times> material_profile) list" where
  "material_table =
     [(''PLA'', \<lparr> density = lit (124 / 100), cost_per_gram = lit (2 / 100) \<rparr>),
      (''ABS'', \<lparr> density = lit (104 / 100), cost_per_gram = lit (25 / 1000) \<rparr>),
      (''PETG'', \<lparr> density = lit (127 / 100), cost_per_gram = lit (3 / 100) \<rparr>),
      (''TPU'', \<lparr> density = lit (121 / 100), cost_per_gram = lit (5 / 100) \<rparr>),
      (''Nylon'', \<lparr> density = lit (114 / 100), cost_per_gram = lit (6 / 100) \<rparr>),
      (''ASA'', \<lparr> density = lit (107 / 100), cost_per_gram = lit (35 / 1000) \<rparr>)]"

definition init_engine :: "real \<Rightarrow> real \<Rightarrow> real \<Rightarrow> pricing_engine" where
  "init_engine env_density env_cost env_speed =
     \<lparr> default_density = env_density,
       default_cost_per_gram = env_cost,
       fdm_print_speed = env_speed,
       materials = material_table \<rparr>"

text \<open>The engine built when no environment variable is set.\<close>

definition pricing_engine :: pricing_engine where
  "pricing_engine = init_engine (lit (124 / 100)) (lit (2 / 100)) 20"

text \<open>
  The local variable \<open>effective_density\<close> of \<open>calculate_mass\<close>: the density of the
  material, or the default density for a name the table does not have, scaled by the
  infill.
\<close>

definition effective_density :: "pricing_engine \<Rightarrow> string \<Rightarrow> int \<Rightarrow> pyfloat" where
  "effective_density self material infill =
     (let dens = (case map_of (materials self) material of
                    Some p \<Rightarrow> density p
                  | None \<Rightarrow> default_density self)
      in fmul (Finite dens)
           (fadd (Finite (lit (3 / 10)))
              (fmul (Finite (lit (7 / 10))) (int_truediv infill 100))))"

definition calculate_mass :: "pricing_engine \<Rightarrow> real \<Rightarrow> string \<Rightarrow> int \<Rightarrow> pyfloat" where
  "calculate_mass self volume material infill =
     (let mass = fmul (Finite volume) (effective_density self material infill)
      in float_round2 mass)"

definition calculate_material_cost :: "pricing_engine \<Rightarrow> pyfloat \<Rightarrow> string \<Rightarrow> pyfloat" where
  "calculate_material_cost self mass material =
     (let cpg = (case map_of (materials self) material of
                   Some p \<Rightarrow> cost_per_gram p
                 | None \<Rightarrow> default_cost_per_gram self);
          cost = fmul mass (Finite cpg)
      in float_round2 cost)"

text \<open>
  The print time before the final \<open>round\<close>, the local variable \<open>total_time\<close>. The
  division by the print speed raises when the configured speed is zero. The estimate is
  modelled over the reals, without the rounding of each operation: what is proved of it
  is the order of its results and the equality of two calls with the same arguments.
\<close>

definition total_time :: "real \<Rightarrow> real \<Rightarrow> int \<Rightarrow> int \<Rightarrow> real" where
  "total_time speed volume complexity_score infill =
     (let base_time = volume / speed;
          complexity_multiplier = 1 + real_of_int complexity_score / 10;
          infill_multiplier = 8 / 10 + (real_of_int infill / 100) * (4 / 10)
      in base_time * complexity_multiplier * infill_multiplier)"

definition estimate_print_time :: "pricing_engine \<Rightarrow> real \<Rightarrow> int \<Rightarrow> int \<Rightarrow> error + real" where
  "estimate_print_time self volume complexity_score infill =
     (if fdm_print_speed self = 0 then Inl ZeroDivisionError
      else Inr (py_round2 (total_time (fdm_print_speed self) volume complexity_score infill)))"

record settings =
  layer_height_mm :: real
  infill_percentage :: int
  supports_needed :: bool
  brim_recommended :: bool
  print_speed_mm_s :: int

fun get_recommended_settings :: "int \<Rightarrow> bbox \<Rightarrow> settings" where
  "get_recommended_settings complexity_score (bx, by, bz) =
     (let layer_height = (if complexity_score \<ge> 7 then lit (12 / 100)
                          else if complexity_score \<ge> 4 then lit (16 / 100)
                          else lit (20 / 100));
          max_dim = tuple_max (bx, by, bz);
          infill = (if max_dim > 200 \<or> complexity_score \<ge> 7 then 25 else 20);
          z_height = bz;
          xy_max = max bx by;
          aspect = fdiv z_height (max xy_max 1);
          supports = (aspect > 2 \<or> complexity_score \<ge> 6)
      in \<lparr> layer_height_mm = layer_height,
           infill_percentage = infill,
           supports_needed = supports,
           brim_recommended = (max_dim > 150),
           print_speed_mm_s = (if complexity_score \<ge> 6 then 50 else 60) \<rparr>)"

record pricing_result =
  mass_g :: pyfloat
  material_cost_usd :: pyfloat
  est_print_time_hours :: real
  recommended_settings :: settings
  material_used :: string

definition calculate_full_pricing ::
  "pricing_engine \<Rightarrow> real \<Rightarrow> int \<Rightarrow> bbox \<Rightarrow> string \<Rightarrow> int option \<Rightarrow> error + pricing_result" where
  "calculate_full_pricing self volume complexity_score bb material infill_arg =
     (let sett = get_recommended_settings complexity_score bb;
          infill = (case infill_arg of None \<Rightarrow> infill_percentage sett | Some i \<Rightarrow> i);
          mass = calculate_mass self volume material infill;
          material_cost = calculate_material_cost self mass material
      in case estimate_print_time self volume complexity_score infill of
           Inl e \<Rightarrow> Inl e
         | Inr print_time \<Rightarrow>
             Inr \<lparr> mass_g = mass,
                   material_cost_usd = material_cost,
                   est_print_time_hours = print_time,
                   recommended_settings = sett,
                   material_used = material \<rparr>)"

section \<open>Example inputs\<close>

text \<open>
  A solid 50 x 30 x 20 mm box of 2000 triangles (volume 30 cm3, surface 62 cm2), the
  same box with a hole in its surface, a rod of 4.7 x 0.47 x 0.47 mm meshed with 12
  triangles (its volume rounds to 0.0 cm3, its surface to 0.09 cm2), and a part of
  45.2 cm3 measuring 120.5 x 45.3 x 30.2 mm. Each decimal stands for the binary64
  number nearest to it.
\<close>

definition box_mesh :: mesh where
  "box_mesh = \<lparr> faces_len = 2000, vertices_len = 1002, split_len = 1,
                mesh_is_watertight = True \<rparr>"

definition open_box_mesh :: mesh where
  "open_box_mesh = box_mesh\<lparr> mesh_is_watertight := False \<rparr>"

definition box_geometry :: geometry where
  "box_geometry = \<lparr> volume_cm3 = 30, bounding_box = (50, 30, 20), surface_area_cm2 = 62 \<rparr>"

definition rod_bbox :: bbox where
  "rod_bbox = (lit (47 / 10), lit (47 / 100), lit (47 / 100))"

definition rod_mesh :: mesh where
  "rod_mesh = \<lparr> faces_len = 12, vertices_len = 8, split_len = 1,
                mesh_is_watertight = True \<rparr>"

definition rod_geometry :: geometry where
  "rod_geometry = \<lparr> volume_cm3 = 0, bounding_box = rod_bbox,
                    surface_area_cm2 = lit (9 / 100) \<rparr>"

definition part_volume :: real where
  "part_volume = lit (452 / 10)"

definition part_bbox :: bbox where
  "part_bbox = (lit (1205 / 10), lit (453 / 10), lit (302 / 10))"

section \<open>Rounding to the nearest integer\<close>

lemma round_half_even_bounds:
  "of_int (round_half_even y) \<le> y + 1 / 2" "y - 1 / 2 \<le> of_int (round_half_even y)"
  unfolding round_half_even_def Let_def by (auto; linarith)+

lemma round_half_even_mono:
  assumes "x \<le> y"
  shows "round_half_even x \<le> round_half_even y"
proof (cases "\<lfloor>x\<rfloor> = \<lfloor>y\<rfloor>")
  case True
  with assms show ?thesis
    unfolding round_half_even_def Let_def by auto
next
  case False
  with assms have lt: "\<lfloor>x\<rfloor> + 1 \<le> \<lfloor>y\<rfloor>"
    using floor_mono [of x y] by linarith
  have "round_half_even x \<le> \<lfloor>x\<rfloor> + 1"
    unfolding round_half_even_def Let_def by auto
  moreover have "\<lfloor>y\<rfloor> \<le> round_half_even y"
    unfolding round_half_even_def Let_def by auto
  ultimately show ?thesis using lt by linarith
qed

lemma round_half_even_of_int: "round_half_even (of_int k) = k"
  unfolding round_half_even_def Let_def by simp

lemma round_half_even_small:
  assumes "\<bar>y\<bar> \<le> 1 / 2"
  shows "round_half_even y = 0"
proof -
  have a: "round_half_even (1 / 2) = 0" and b: "round_half_even (- (1 / 2)) = 0"
    by (simp_all add: round_half_even_def Let_def)
  from assms have "y \<le> 1 / 2" by linarith
  then have c: "round_half_even y \<le> round_half_even (1 / 2)"
    by (rule round_half_even_mono)
  from assms have "- (1 / 2) \<le> y" by linarith
  then have "round_half_even (- (1 / 2)) \<le> round_half_even y"
    by (rule round_half_even_mono)
  with a b c show ?thesis by simp
qed

lemma round_half_even_abs_le: "\<bar>real_of_int (round_half_even y)\<bar> \<le> 2 * \<bar>y\<bar>"
proof (cases "\<bar>y\<bar> \<le> 1 / 2")
  case True
  then show ?thesis by (simp add: round_half_even_small)
next
  case False
  with round_half_even_bounds [of y] show ?thesis by linarith
qed

lemma round_half_even_sign:
  "0 \<le> y \<Longrightarrow> 0 \<le> round_half_even y" "y \<le> 0 \<Longrightarrow> round_half_even y \<le> 0"
  using round_half_even_mono [of 0 y] round_half_even_mono [of y 0]
    round_half_even_of_int [of 0] by simp_all

lemma round_half_even_ge_int:
  "real_of_int k \<le> y \<Longrightarrow> k \<le> round_half_even y"
  using round_half_even_mono [of "of_int k" y] by (simp add: round_half_even_of_int)

lemma round_half_even_le_int:
  "y \<le> real_of_int k \<Longrightarrow> round_half_even y \<le> k"
  using round_half_even_mono [of y "of_int k"] by (simp add: round_half_even_of_int)


section \<open>Rounding to two decimals over the reals\<close>


section \<open>Rounding to binary64\<close>

lemma quantum_from_spec:
  "q \<le> quantum_from n q a \<and> quantum_from n q a \<le> q + int n
   \<and> (quantum_from n q a = q \<or> 2 powi (quantum_from n q a + 52) \<le> a)
   \<and> (quantum_from n q a = q + int n \<or> a < 2 powi (quantum_from n q a + 53))"
proof (induction n arbitrary: q)
  case 0
  show ?case by simp
next
  case (Suc n)
  show ?case
  proof (cases "2 powi (q + 53) \<le> a")
    case True
    then have a: "(2::real) powi (q + 1 + 52) \<le> a" by (simp add: add.commute add.left_commute)
    from Suc [of "q + 1"] True a show ?thesis by auto
  next
    case False
    then show ?thesis by simp
  qed
qed

lemma quantum_spec:
  "- 1074 \<le> quantum x" "quantum x \<le> 971"
  "quantum x = - 1074 \<or> 2 powi (quantum x + 52) \<le> \<bar>x\<bar>"
  "quantum x = 971 \<or> \<bar>x\<bar> < 2 powi (quantum x + 53)"
  using quantum_from_spec [of "- 1074" 2045 "\<bar>x\<bar>"] by (simp_all add: quantum_def)

lemma quantum_eq:
  assumes "- 1074 \<le> q" "q \<le> 971"
    and lo: "q = - 1074 \<or> 2 powi (q + 52) \<le> \<bar>x\<bar>"
    and hi: "q = 971 \<or> \<bar>x\<bar> < 2 powi (q + 53)"
  shows "quantum x = q"
proof (rule ccontr)
  assume ne: "quantum x \<noteq> q"
  let ?r = "quantum x"
  show False
  proof (cases "?r < q")
    case True
    with quantum_spec(2,4) [of x] assms have "\<bar>x\<bar> < 2 powi (?r + 53)" by auto
    also have "(2::real) powi (?r + 53) \<le> 2 powi (q + 52)"
      using True by (intro power_int_increasing) auto
    finally have "\<bar>x\<bar> < 2 powi (q + 52)" .
    moreover from True quantum_spec(1) [of x] lo have "2 powi (q + 52) \<le> \<bar>x\<bar>" by auto
    ultimately show False by simp
  next
    case False
    with ne have gt: "q < ?r" by simp
    with quantum_spec(1,3) [of x] assms have "2 powi (?r + 52) \<le> \<bar>x\<bar>" by auto
    moreover from gt quantum_spec(2) [of x] hi have "\<bar>x\<bar> < 2 powi (q + 53)" by auto
    moreover have "(2::real) powi (q + 53) \<le> 2 powi (?r + 52)"
      using gt by (intro power_int_increasing) auto
    ultimately show False by simp
  qed
qed

lemma round53_at:
  assumes "- 1074 \<le> q" "q \<le> 971"
    and "q = - 1074 \<or> 2 powi (q + 52) \<le> \<bar>x\<bar>"
    and "q = 971 \<or> \<bar>x\<bar> < 2 powi (q + 53)"
    and "round_half_even (x / 2 powi q) = m"
    and "of_int m * 2 powi q = r"
  shows "round53 x = r"
  using quantum_eq [OF assms(1-4)] assms(5,6) by (simp add: round53_def)

lemma two_powi_pos: "0 < (2::real) powi k"
  by (simp add: zero_less_power_int)

lemma round53_abs_le: "\<bar>round53 x\<bar> \<le> 2 * \<bar>x\<bar>"
proof -
  let ?p = "(2::real) powi quantum x"
  have p: "0 < ?p" by (rule two_powi_pos)
  have "\<bar>round53 x\<bar> = \<bar>real_of_int (round_half_even (x / ?p))\<bar> * ?p"
    using p by (simp add: round53_def abs_mult)
  also have "\<dots> \<le> (2 * \<bar>x / ?p\<bar>) * ?p"
    using round_half_even_abs_le [of "x / ?p"] p by (intro mult_right_mono) simp_all
  also have "\<dots> = 2 * \<bar>x\<bar>" using p by (simp add: abs_divide)
  finally show ?thesis .
qed

lemma round53_nonneg: "0 \<le> x \<Longrightarrow> 0 \<le> round53 x"
  unfolding round53_def
  by (intro mult_nonneg_nonneg) (simp_all add: round_half_even_sign)

lemma round53_le:
  assumes "0 \<le> x"
  shows "round53 x \<le> 2 * x"
proof -
  have "round53 x \<le> \<bar>round53 x\<bar>" by simp
  also have "\<dots> \<le> 2 * \<bar>x\<bar>" by (rule round53_abs_le)
  also have "\<dots> = 2 * x" using assms by simp
  finally show ?thesis .
qed

lemma round53_zero: "round53 0 = 0"
  using round53_abs_le [of 0] by simp

lemma round53_pos:
  assumes "2 powi (- 1074) \<le> x"
  shows "0 < round53 x"
proof -
  let ?q = "quantum x"
  let ?p = "(2::real) powi ?q"
  have p: "0 < ?p" by (rule two_powi_pos)
  have x: "0 < x" using assms two_powi_pos [of "- 1074"] by linarith
  have "?p \<le> x"
  proof (cases "?q = - 1074")
    case True
    with assms show ?thesis by simp
  next
    case False
    with quantum_spec(3) [of x] x have "2 powi (?q + 52) \<le> x" by simp
    moreover have "?p \<le> 2 powi (?q + 52)" by (intro power_int_increasing) auto
    ultimately show ?thesis by linarith
  qed
  then have "1 \<le> x / ?p" using p by simp
  then have "1 \<le> round_half_even (x / ?p)"
    using round_half_even_ge_int [of 1 "x / ?p"] by simp
  then have "0 < real_of_int (round_half_even (x / ?p))" by simp
  then show ?thesis unfolding round53_def using p by (intro mult_pos_pos)
qed


lemma round53_overflow:
  assumes "2 ^ 1024 \<le> \<bar>x\<bar>"
  shows "2 ^ 1024 \<le> \<bar>round53 x\<bar>"
proof -
  have q: "quantum x = 971"
    by (rule quantum_eq) (use assms in \<open>auto intro: order_trans [rotated]\<close>)
  let ?p = "(2::real) ^ 971"
  have p: "0 < ?p" by simp
  have r: "round53 x = real_of_int (round_half_even (x / ?p)) * ?p"
    by (simp add: round53_def q)
  have s: "(2::real) ^ 1024 = 2 ^ 53 * ?p" by (simp flip: power_add)
  show ?thesis
  proof (cases "0 \<le> x")
    case True
    with assms have "real_of_int (2 ^ 53) \<le> x / ?p" using p by (simp add: s)
    then have "2 ^ 53 \<le> round_half_even (x / ?p)" by (rule round_half_even_ge_int)
    then have "real_of_int (2 ^ 53) \<le> real_of_int (round_half_even (x / ?p))"
      by (simp only: of_int_le_iff)
    then have "(2::real) ^ 53 \<le> real_of_int (round_half_even (x / ?p))" by simp
    then have "2 ^ 53 * ?p \<le> real_of_int (round_half_even (x / ?p)) * ?p"
      using p by (intro mult_right_mono) simp_all
    then show ?thesis unfolding r s by linarith
  next
    case False
    with assms have "x / ?p \<le> real_of_int (- (2 ^ 53))" using p by (simp add: s field_simps)
    then have "round_half_even (x / ?p) \<le> - (2 ^ 53)" by (rule round_half_even_le_int)
    then have "real_of_int (round_half_even (x / ?p)) \<le> real_of_int (- (2 ^ 53))"
      by (simp only: of_int_le_iff)
    then have "real_of_int (round_half_even (x / ?p)) \<le> - (2 ^ 53)" by simp
    then have "real_of_int (round_half_even (x / ?p)) * ?p \<le> - (2 ^ 53) * ?p"
      using p by (intro mult_right_mono) simp_all
    then show ?thesis unfolding r s by linarith
  qed
qed
section \<open>Complexity score\<close>

text \<open>The source's running sum is the sum of the five contributions of the table.\<close>

lemma score_before_cap_sum:
  "score_before_cap m g =
     density_points g (analyze_mesh_quality m) + shell_points (analyze_mesh_quality m)
     + aspect_points g + watertight_points (analyze_mesh_quality m) + surface_points g"
  by (simp add: score_before_cap_def density_points_def shell_points_def aspect_points_def
      watertight_points_def surface_points_def analyze_mesh_quality_def Let_def)

lemma density_points_range: "0 \<le> density_points g q \<and> density_points g q \<le> 2"
  by (simp add: density_points_def Let_def)

lemma shell_points_range: "0 \<le> shell_points q \<and> shell_points q \<le> 2"
  by (simp add: shell_points_def)

lemma aspect_points_range: "0 \<le> aspect_points g \<and> aspect_points g \<le> 2"
  by (simp add: aspect_points_def Let_def)

lemma watertight_points_range: "0 \<le> watertight_points q \<and> watertight_points q \<le> 2"
  by (simp add: watertight_points_def)

lemma surface_points_range: "0 \<le> surface_points g \<and> surface_points g \<le> 2"
  by (simp add: surface_points_def Let_def)

lemma score_before_cap_range: "0 \<le> score_before_cap m g \<and> score_before_cap m g \<le> 10"
  using density_points_range [of g "analyze_mesh_quality m"]
    shell_points_range [of "analyze_mesh_quality m"] aspect_points_range [of g]
    watertight_points_range [of "analyze_mesh_quality m"] surface_points_range [of g]
  unfolding score_before_cap_sum by linarith

lemma density_points_mono:
  "tri_density m1 g1 \<le> tri_density m2 g2 \<Longrightarrow>
   density_points g1 (analyze_mesh_quality m1) \<le> density_points g2 (analyze_mesh_quality m2)"
  by (simp add: density_points_def tri_density_def analyze_mesh_quality_def Let_def)

lemma shell_points_mono:
  "split_len m1 \<le> split_len m2 \<Longrightarrow>
   shell_points (analyze_mesh_quality m1) \<le> shell_points (analyze_mesh_quality m2)"
  by (simp add: shell_points_def analyze_mesh_quality_def)

lemma aspect_points_mono:
  "aspect_ratio g1 \<le> aspect_ratio g2 \<Longrightarrow> aspect_points g1 \<le> aspect_points g2"
  by (simp add: aspect_points_def aspect_ratio_def Let_def)

lemma watertight_points_mono:
  "(mesh_is_watertight m2 \<longrightarrow> mesh_is_watertight m1) \<Longrightarrow>
   watertight_points (analyze_mesh_quality m1) \<le> watertight_points (analyze_mesh_quality m2)"
  by (simp add: watertight_points_def analyze_mesh_quality_def)

lemma surface_points_mono:
  "sa_vol_ratio g1 \<le> sa_vol_ratio g2 \<Longrightarrow> surface_points g1 \<le> surface_points g2"
  by (simp add: surface_points_def sa_vol_ratio_def Let_def)

text \<open>
  The measures of the example box: 2000 / 30, 50 / 20 and 62 / 30, each rounded to
  binary64. The constant 0.1 is below both divisors.
\<close>

lemma lit_tenth: "lit (1 / 10) = 3602879701896397 / 2 ^ 55"
  unfolding lit_def
  by (rule round53_at [where q = "- 56" and m = 7205759403792794])
     (simp_all add: round_half_even_def Let_def power_int_minus_divide)

lemma box_tri_density: "fdiv (round53 2000) 30 = 4691249611844267 / 2 ^ 46"
proof -
  have n: "round53 2000 = 2000"
    by (rule round53_at [where q = "- 42" and m = 8796093022208000])
       (simp_all add: round_half_even_def Let_def power_int_minus_divide)
  have "round53 (2000 / 30) = 4691249611844267 / 2 ^ 46"
    by (rule round53_at [where q = "- 46" and m = 4691249611844267])
       (simp_all add: round_half_even_def Let_def power_int_minus_divide)
  with n show ?thesis by (simp only: fdiv_def)
qed

lemma box_aspect_ratio: "fdiv 50 (max 20 (lit (1 / 10))) = 5 / 2"
proof -
  have "round53 (50 / 20) = 5 / 2"
    by (rule round53_at [where q = "- 51" and m = 5629499534213120])
       (simp_all add: round_half_even_def Let_def power_int_minus_divide)
  then show ?thesis by (simp add: fdiv_def lit_tenth)
qed

lemma box_sa_vol_ratio: "fdiv 62 (max 30 (lit (1 / 10))) = 4653719614949513 / 2 ^ 51"
proof -
  have "round53 (62 / 30) = 4653719614949513 / 2 ^ 51"
    by (rule round53_at [where q = "- 51" and m = 4653719614949513])
       (simp_all add: round_half_even_def Let_def power_int_minus_divide)
  then show ?thesis by (simp add: fdiv_def lit_tenth)
qed

text \<open>
  The rod of 4.7 x 0.47 x 0.47 mm: the quotient of the two binary64 numbers rounds to
  the binary64 number just above 10, so the aspect ratio scores 2.
\<close>

lemma rod_aspect_ratio:
  "fdiv (tuple_max rod_bbox) (max (tuple_min rod_bbox) (lit (1 / 10)))
     = 5629499534213121 / 2 ^ 49"
proof -
  have a: "lit (47 / 10) = 5291729562160333 / 2 ^ 50"
    unfolding lit_def
    by (rule round53_at [where q = "- 50" and m = 5291729562160333])
       (simp_all add: round_half_even_def Let_def power_int_minus_divide)
  have b: "lit (47 / 100) = 2116691824864133 / 2 ^ 52"
    unfolding lit_def
    by (rule round53_at [where q = "- 54" and m = 8466767299456532])
       (simp_all add: round_half_even_def Let_def power_int_minus_divide)
  have "round53 ((5291729562160333 / 2 ^ 50) / (2116691824864133 / 2 ^ 52))
      = 5629499534213121 / 2 ^ 49"
    by (rule round53_at [where q = "- 49" and m = 5629499534213121])
       (simp_all add: round_half_even_def Let_def power_int_minus_divide)
  then show ?thesis by (simp add: fdiv_def rod_bbox_def a b lit_tenth)
qed

lemma rod_tri_density: "fdiv (round53 12) 1 = 12"
proof -
  have n: "round53 12 = 12"
    by (rule round53_at [where q = "- 49" and m = 6755399441055744])
       (simp_all add: round_half_even_def Let_def power_int_minus_divide)
  then show ?thesis by (simp add: fdiv_def)
qed

lemma rod_sa_vol_ratio:
  "fdiv (lit (9 / 100)) (max 0 (lit (1 / 10))) = 2026619832316723 / 2 ^ 51"
proof -
  have a: "lit (9 / 100) = 3242591731706757 / 2 ^ 55"
    unfolding lit_def
    by (rule round53_at [where q = "- 56" and m = 6485183463413514])
       (simp_all add: round_half_even_def Let_def power_int_minus_divide)
  have "round53 ((3242591731706757 / 2 ^ 55) / (3602879701896397 / 2 ^ 55))
      = 2026619832316723 / 2 ^ 51"
    by (rule round53_at [where q = "- 53" and m = 8106479329266892])
       (simp_all add: round_half_even_def Let_def power_int_minus_divide)
  then show ?thesis unfolding a lit_tenth by (simp add: fdiv_def)
qed

lemma rod_score: "compute_complexity_score rod_mesh rod_geometry = 2"
  by (simp add: compute_complexity_score_def score_before_cap_def rod_mesh_def
      rod_geometry_def Let_def rod_tri_density rod_aspect_ratio rod_sa_vol_ratio)

text \<open>
  C1. The score of the source is the reference sum of the table (triangle density,
  shell count, aspect ratio, watertightness, surface to volume ratio; each 2, 1 or 0),
  clamped to at most 10, and it is an integer between 0 and 10.
\<close>

theorem complexity_score_reference:
  "compute_complexity_score m g = reference_score g (analyze_mesh_quality m)
   \<and> 0 \<le> compute_complexity_score m g \<and> compute_complexity_score m g \<le> 10"
  using score_before_cap_range [of m g]
  by (simp add: compute_complexity_score_def reference_score_def score_before_cap_sum)

text \<open>
  C2. When no measure of the second input is below that of the first (triangle density,
  shell count, aspect ratio, surface to volume ratio, and a mesh that is not watertight
  stays so), the second score is at least the first, and both lie between 0 and 10. Two
  inputs that differ in one increased measure are the special case.
\<close>

theorem complexity_score_monotone:
  assumes "tri_density m1 g1 \<le> tri_density m2 g2"
    and "split_len m1 \<le> split_len m2"
    and "aspect_ratio g1 \<le> aspect_ratio g2"
    and "mesh_is_watertight m2 \<longrightarrow> mesh_is_watertight m1"
    and "sa_vol_ratio g1 \<le> sa_vol_ratio g2"
  shows "compute_complexity_score m1 g1 \<le> compute_complexity_score m2 g2
    \<and> 0 \<le> compute_complexity_score m1 g1 \<and> compute_complexity_score m1 g1 \<le> 10
    \<and> 0 \<le> compute_complexity_score m2 g2 \<and> compute_complexity_score m2 g2 \<le> 10"
proof -
  have "score_before_cap m1 g1 \<le> score_before_cap m2 g2"
    using density_points_mono [OF assms(1)] shell_points_mono [OF assms(2)]
      aspect_points_mono [OF assms(3)] watertight_points_mono [OF assms(4)]
      surface_points_mono [OF assms(5)]
    unfolding score_before_cap_sum by linarith
  then show ?thesis
    using score_before_cap_range [of m1 g1] score_before_cap_range [of m2 g2]
    by (simp add: compute_complexity_score_def)
qed

text \<open>The box and the same box with a hole: only watertightness changes, 0 becomes 2.\<close>

theorem complexity_score_monotone_witness:
  "tri_density box_mesh box_geometry \<le> tri_density open_box_mesh box_geometry
   \<and> split_len box_mesh \<le> split_len open_box_mesh
   \<and> mesh_is_watertight box_mesh
   \<and> compute_complexity_score box_mesh box_geometry = 0
   \<and> compute_complexity_score open_box_mesh box_geometry = 2
   \<and> compute_complexity_score box_mesh box_geometry
       \<le> compute_complexity_score open_box_mesh box_geometry"
proof -
  have h1: "tri_density box_mesh box_geometry \<le> tri_density open_box_mesh box_geometry"
    by (simp add: tri_density_def box_mesh_def open_box_mesh_def)
  have h2: "split_len box_mesh \<le> split_len open_box_mesh"
    by (simp add: box_mesh_def open_box_mesh_def)
  have h3: "aspect_ratio box_geometry \<le> aspect_ratio box_geometry" by simp
  have w: "mesh_is_watertight box_mesh" by (simp add: box_mesh_def)
  then have h4: "mesh_is_watertight open_box_mesh \<longrightarrow> mesh_is_watertight box_mesh" by simp
  have h5: "sa_vol_ratio box_geometry \<le> sa_vol_ratio box_geometry" by simp
  have a: "compute_complexity_score box_mesh box_geometry = 0"
    by (simp add: compute_complexity_score_def score_before_cap_def box_mesh_def
        box_geometry_def Let_def box_tri_density box_aspect_ratio box_sa_vol_ratio)
  have b: "compute_complexity_score open_box_mesh box_geometry = 2"
    by (simp add: compute_complexity_score_def score_before_cap_def box_mesh_def
        open_box_mesh_def box_geometry_def Let_def box_tri_density box_aspect_ratio
        box_sa_vol_ratio)
  from complexity_score_monotone [OF h1 h2 h3 h4 h5] h1 h2 w a b show ?thesis by simp
qed

text \<open>
  C3. Whatever the other factors are, the score of a mesh that is not watertight is the
  score of the same mesh made watertight, plus exactly 2.
\<close>

theorem non_watertight_adds_two:
  "compute_complexity_score (m\<lparr>mesh_is_watertight := False\<rparr>) g
     = compute_complexity_score (m\<lparr>mesh_is_watertight := True\<rparr>) g + 2"
proof -
  let ?t = "m\<lparr>mesh_is_watertight := True\<rparr>" and ?f = "m\<lparr>mesh_is_watertight := False\<rparr>"
  have step: "score_before_cap ?f g = score_before_cap ?t g + 2"
    by (simp add: score_before_cap_def Let_def)
  have "score_before_cap ?f g \<le> 10" using score_before_cap_range [of ?f g] by simp
  with step show ?thesis by (simp add: compute_complexity_score_def)
qed

text \<open>
  C9. The sum of the five contributions before the clamp is never above 10, so the
  final \<open>min(score, 10)\<close> changes nothing: the score returned is the raw sum.
\<close>

theorem cap_never_truncates:
  "score_before_cap m g \<le> 10 \<and> compute_complexity_score m g = score_before_cap m g"
  using score_before_cap_range [of m g] by (simp add: compute_complexity_score_def)

section \<open>Recommended settings\<close>

text \<open>
  C4. The recommended infill is 25 when the largest bounding box dimension exceeds 200
  or the score is at least 7, and 20 otherwise; it is never any other value.
\<close>

theorem recommended_infill_exact:
  "infill_percentage (get_recommended_settings s bb)
     = (if tuple_max bb > 200 \<or> s \<ge> 7 then 25 else 20)
   \<and> infill_percentage (get_recommended_settings s bb) \<in> {20, 25}"
  by (cases bb) (simp add: Let_def)

section \<open>Floats returned to the caller\<close>

lemma to_float_at:
  assumes "- 1074 \<le> q" "q \<le> 971"
    and "q = - 1074 \<or> 2 powi (q + 52) \<le> \<bar>x\<bar>"
    and "q = 971 \<or> \<bar>x\<bar> < 2 powi (q + 53)"
    and "round_half_even (x / 2 powi q) = m"
    and "of_int m * 2 powi q = r"
    and "\<bar>r\<bar> < 2 ^ 1024"
  shows "to_float x = Finite r"
  using round53_at [OF assms(1-6)] assms(7) by (simp add: to_float_def)

lemma fmul_at:
  assumes "- 1074 \<le> q" "q \<le> 971"
    and "q = - 1074 \<or> 2 powi (q + 52) \<le> \<bar>a * b\<bar>"
    and "q = 971 \<or> \<bar>a * b\<bar> < 2 powi (q + 53)"
    and "round_half_even (a * b / 2 powi q) = m"
    and "of_int m * 2 powi q = r"
    and "\<bar>r\<bar> < 2 ^ 1024"
  shows "fmul (Finite a) (Finite b) = Finite r"
  using to_float_at [OF assms] by simp

lemma fadd_at:
  assumes "- 1074 \<le> q" "q \<le> 971"
    and "q = - 1074 \<or> 2 powi (q + 52) \<le> \<bar>a + b\<bar>"
    and "q = 971 \<or> \<bar>a + b\<bar> < 2 powi (q + 53)"
    and "round_half_even ((a + b) / 2 powi q) = m"
    and "of_int m * 2 powi q = r"
    and "\<bar>r\<bar> < 2 ^ 1024"
  shows "fadd (Finite a) (Finite b) = Finite r"
  using to_float_at [OF assms] by simp

lemma to_float_finite:
  assumes "2 * \<bar>x\<bar> < 2 ^ 1024"
  shows "to_float x = Finite (round53 x)"
  using round53_abs_le [of x] assms by (simp add: to_float_def)


lemma to_float_overflow: "2 ^ 1024 \<le> \<bar>x\<bar> \<Longrightarrow> to_float x = NonFinite"
  using round53_overflow [of x] by (simp add: to_float_def)



lemma cents_sign: "0 \<le> x \<Longrightarrow> 0 \<le> cents x"
  by (simp add: cents_def round_half_even_sign)

lemma cents_upper: "real_of_int (cents x) / 100 \<le> x + 1 / 200"
  using round_half_even_bounds(1) [of "x * 100"] by (simp add: cents_def)


lemma cents_pos:
  assumes "1 / 200 < x"
  shows "1 \<le> cents x"
proof -
  have "0 < x * 100 - 1 / 2" using assms by simp
  with round_half_even_bounds(2) [of "x * 100"]
  have "(0::real) < of_int (round_half_even (x * 100))" by linarith
  then show ?thesis by (simp add: cents_def)
qed


text \<open>Bounds that keep a chain of operations on numbers that are not negative finite.\<close>

lemma fmul_bounded:
  assumes "0 \<le> a" "a \<le> A" "0 \<le> b" "b \<le> B" "2 * (A * B) < 2 ^ 1024"
  obtains r where "fmul (Finite a) (Finite b) = Finite r" "0 \<le> r" "r \<le> 2 * (A * B)"
proof -
  have ab: "0 \<le> a * b" "a * b \<le> A * B"
    using assms by (simp_all add: mult_mono)
  then have "2 * \<bar>a * b\<bar> \<le> 2 * (A * B)" by simp
  also note assms(5)
  finally have "2 * \<bar>a * b\<bar> < 2 ^ 1024" .
  then have "fmul (Finite a) (Finite b) = Finite (round53 (a * b))"
    by (simp add: to_float_finite)
  moreover have "0 \<le> round53 (a * b)" using ab(1) by (rule round53_nonneg)
  moreover have "round53 (a * b) \<le> 2 * (A * B)"
  proof -
    have "2 * (a * b) \<le> 2 * (A * B)" using ab(2) by simp
    with round53_le [OF ab(1)] show ?thesis by (rule order_trans)
  qed
  ultimately show ?thesis by (rule that)
qed

lemma fadd_bounded:
  assumes "0 \<le> a" "a \<le> A" "0 \<le> b" "b \<le> B" "2 * (A + B) < 2 ^ 1024"
  obtains r where "fadd (Finite a) (Finite b) = Finite r" "0 \<le> r" "r \<le> 2 * (A + B)"
proof -
  have ab: "0 \<le> a + b" "a + b \<le> A + B" using assms by simp_all
  then have "2 * \<bar>a + b\<bar> \<le> 2 * (A + B)" by simp
  also note assms(5)
  finally have "2 * \<bar>a + b\<bar> < 2 ^ 1024" .
  then have "fadd (Finite a) (Finite b) = Finite (round53 (a + b))"
    by (simp add: to_float_finite)
  moreover have "0 \<le> round53 (a + b)" using ab(1) by (rule round53_nonneg)
  moreover have "round53 (a + b) \<le> 2 * (A + B)"
  proof -
    have "2 * (a + b) \<le> 2 * (A + B)" using ab(2) by simp
    with round53_le [OF ab(1)] show ?thesis by (rule order_trans)
  qed
  ultimately show ?thesis by (rule that)
qed

lemma float_round2_bounded:
  assumes "0 \<le> x" "x \<le> X"
  obtains r where "float_round2 (Finite x) = Finite r" "0 \<le> r" "r \<le> 2 * (X + 1 / 200)"
proof -
  let ?d = "real_of_int (cents x) / 100"
  have d: "0 \<le> ?d" "?d \<le> X + 1 / 200"
    using cents_sign [OF assms(1)] cents_upper [of x] assms(2) by simp_all
  have "float_round2 (Finite x) = Finite (round53 ?d)" by simp
  moreover have "0 \<le> round53 ?d" using d(1) by (rule round53_nonneg)
  moreover have "round53 ?d \<le> 2 * (X + 1 / 200)"
  proof -
    have "2 * ?d \<le> 2 * (X + 1 / 200)" using d(2) by simp
    with round53_le [OF d(1)] show ?thesis by (rule order_trans)
  qed
  ultimately show ?thesis by (rule that)
qed

lemma lit_bounded: "0 \<le> x \<Longrightarrow> 0 \<le> lit x \<and> lit x \<le> 2 * x"
  using round53_le [of x] round53_nonneg [of x] by (simp add: lit_def)

lemma int_truediv_percent:
  assumes "0 \<le> i" "i \<le> 100"
  obtains r where "int_truediv i 100 = Finite r" "0 \<le> r" "r \<le> 2"
proof -
  let ?x = "real_of_int i / real_of_int 100"
  have x: "0 \<le> ?x" "?x \<le> 1" using assms by simp_all
  then have "2 * \<bar>?x\<bar> < 2 ^ 1024" by simp
  then have "int_truediv i 100 = Finite (round53 ?x)"
    unfolding int_truediv_def by (rule to_float_finite)
  moreover have "0 \<le> round53 ?x" using x(1) by (rule round53_nonneg)
  moreover have "round53 ?x \<le> 2"
  proof -
    have "2 * ?x \<le> 2" using x(2) by simp
    with round53_le [OF x(1)] show ?thesis by (rule order_trans)
  qed
  ultimately show ?thesis by (rule that)
qed



lemma lit_0_4: "lit (4 / 10) = 3602879701896397 / 2 ^ 53"
  unfolding lit_def
  by (rule round53_at [where q = "- 54" and m = 7205759403792794])
     (simp_all add: round_half_even_def Let_def power_int_minus_divide)

lemma lit_0_7: "lit (7 / 10) = 3152519739159347 / 2 ^ 52"
  unfolding lit_def
  by (rule round53_at [where q = "- 53" and m = 6305039478318694])
     (simp_all add: round_half_even_def Let_def power_int_minus_divide)

lemma lit_0_3: "lit (3 / 10) = 5404319552844595 / 2 ^ 54"
  unfolding lit_def
  by (rule round53_at [where q = "- 54" and m = 5404319552844595])
     (simp_all add: round_half_even_def Let_def power_int_minus_divide)

lemma lit_1_24: "lit (124 / 100) = 5584463537939415 / 2 ^ 52"
  unfolding lit_def
  by (rule round53_at [where q = "- 52" and m = 5584463537939415])
     (simp_all add: round_half_even_def Let_def power_int_minus_divide)

lemma lit_0_02: "lit (2 / 100) = 5764607523034235 / 2 ^ 58"
  unfolding lit_def
  by (rule round53_at [where q = "- 58" and m = 5764607523034235])
     (simp_all add: round_half_even_def Let_def power_int_minus_divide)

lemma scaled_density_20:
  "fmul (Finite (lit (124 / 100)))
     (fadd (Finite (lit (3 / 10))) (fmul (Finite (lit (7 / 10))) (int_truediv 20 100)))
   = Finite (4914327913386685 / 2 ^ 53)"
proof -
  have t1: "int_truediv 20 100 = Finite (3602879701896397 / 2 ^ 54)"
    unfolding int_truediv_def
    by (rule to_float_at [where q = "- 55" and m = 7205759403792794])
       (simp_all add: round_half_even_def Let_def power_int_minus_divide)
  have t2: "fmul (Finite (3152519739159347 / 2 ^ 52)) (Finite (3602879701896397 / 2 ^ 54)) = Finite (5044031582654955 / 2 ^ 55)"
    by (rule fmul_at [where q = "- 55" and m = 5044031582654955])
       (simp_all add: round_half_even_def Let_def power_int_minus_divide)
  have t3: "fadd (Finite (5404319552844595 / 2 ^ 54)) (Finite (5044031582654955 / 2 ^ 55)) = Finite (990791918021509 / 2 ^ 51)"
    by (rule fadd_at [where q = "- 54" and m = 7926335344172072])
       (simp_all add: round_half_even_def Let_def power_int_minus_divide)
  have t4: "fmul (Finite (5584463537939415 / 2 ^ 52)) (Finite (990791918021509 / 2 ^ 51)) = Finite (4914327913386685 / 2 ^ 53)"
    by (rule fmul_at [where q = "- 53" and m = 4914327913386685])
       (simp_all add: round_half_even_def Let_def power_int_minus_divide)
  show ?thesis by (simp only: lit_1_24 lit_0_3 lit_0_7 t1 t2 t3 t4)
qed

lemma scaled_density_100:
  "fmul (Finite (lit (124 / 100)))
     (fadd (Finite (lit (3 / 10))) (fmul (Finite (lit (7 / 10))) (int_truediv 100 100)))
   = Finite (5584463537939415 / 2 ^ 52)"
proof -
  have t1: "int_truediv 100 100 = Finite (1)"
    unfolding int_truediv_def
    by (rule to_float_at [where q = "- 52" and m = 4503599627370496])
       (simp_all add: round_half_even_def Let_def power_int_minus_divide)
  have t2: "fmul (Finite (3152519739159347 / 2 ^ 52)) (Finite (1)) = Finite (3152519739159347 / 2 ^ 52)"
    by (rule fmul_at [where q = "- 53" and m = 6305039478318694])
       (simp_all add: round_half_even_def Let_def power_int_minus_divide)
  have t3: "fadd (Finite (5404319552844595 / 2 ^ 54)) (Finite (3152519739159347 / 2 ^ 52)) = Finite (1)"
    by (rule fadd_at [where q = "- 53" and m = 9007199254740992])
       (simp_all add: round_half_even_def Let_def power_int_minus_divide)
  have t4: "fmul (Finite (5584463537939415 / 2 ^ 52)) (Finite (1)) = Finite (5584463537939415 / 2 ^ 52)"
    by (rule fmul_at [where q = "- 52" and m = 5584463537939415])
       (simp_all add: round_half_even_def Let_def power_int_minus_divide)
  show ?thesis by (simp only: lit_1_24 lit_0_3 lit_0_7 t1 t2 t3 t4)
qed









lemma mass_0_4_raw:
  "fmul (Finite (3602879701896397 / 2 ^ 53)) (Finite (4914327913386685 / 2 ^ 53)) = Finite (982865582677337 / 2 ^ 52)"
  by (rule fmul_at [where q = "- 55" and m = 7862924661418696])
     (simp_all add: round_half_even_def Let_def power_int_minus_divide)

lemma mass_0_4:
  "float_round2 (fmul (Finite (3602879701896397 / 2 ^ 53)) (Finite (4914327913386685 / 2 ^ 53))) = Finite (lit (22 / 100))"
proof -
  have c: "cents (982865582677337 / 2 ^ 52) = 22"
    by (simp add: cents_def round_half_even_def Let_def)
  show ?thesis unfolding mass_0_4_raw float_round2.simps c by (simp add: lit_def)
qed

lemma mass_10_raw:
  "fmul (Finite (10)) (Finite (4914327913386685 / 2 ^ 53)) = Finite (1535727472933339 / 2 ^ 48)"
  by (rule fmul_at [where q = "- 50" and m = 6142909891733356])
     (simp_all add: round_half_even_def Let_def power_int_minus_divide)

lemma mass_10:
  "float_round2 (fmul (Finite (10)) (Finite (4914327913386685 / 2 ^ 53))) = Finite (lit (546 / 100))"
proof -
  have c: "cents (1535727472933339 / 2 ^ 48) = 546"
    by (simp add: cents_def round_half_even_def Let_def)
  show ?thesis unfolding mass_10_raw float_round2.simps c by (simp add: lit_def)
qed

lemma lit_0_22: "lit (22 / 100) = 7926335344172073 / 2 ^ 55"
  unfolding lit_def
  by (rule round53_at [where q = "- 55" and m = 7926335344172073])
     (simp_all add: round_half_even_def Let_def power_int_minus_divide)

lemma lit_5_46: "lit (546 / 100) = 6147413491360727 / 2 ^ 50"
  unfolding lit_def
  by (rule round53_at [where q = "- 50" and m = 6147413491360727])
     (simp_all add: round_half_even_def Let_def power_int_minus_divide)

lemma cost_0_22_raw:
  "fmul (Finite (7926335344172073 / 2 ^ 55)) (Finite (5764607523034235 / 2 ^ 58)) = Finite (5072854620270127 / 2 ^ 60)"
  by (rule fmul_at [where q = "- 60" and m = 5072854620270127])
     (simp_all add: round_half_even_def Let_def power_int_minus_divide)

lemma cost_0_22:
  "float_round2 (fmul (Finite (7926335344172073 / 2 ^ 55)) (Finite (5764607523034235 / 2 ^ 58))) = Finite (lit (0 / 100))"
proof -
  have c: "cents (5072854620270127 / 2 ^ 60) = 0"
    by (simp add: cents_def round_half_even_def Let_def)
  show ?thesis unfolding cost_0_22_raw float_round2.simps c by (simp add: lit_def)
qed

lemma cost_5_46_raw:
  "fmul (Finite (6147413491360727 / 2 ^ 50)) (Finite (5764607523034235 / 2 ^ 58)) = Finite (7868689268941731 / 2 ^ 56)"
  by (rule fmul_at [where q = "- 56" and m = 7868689268941731])
     (simp_all add: round_half_even_def Let_def power_int_minus_divide)

lemma cost_5_46:
  "float_round2 (fmul (Finite (6147413491360727 / 2 ^ 50)) (Finite (5764607523034235 / 2 ^ 58))) = Finite (lit (11 / 100))"
proof -
  have c: "cents (7868689268941731 / 2 ^ 56) = 11"
    by (simp add: cents_def round_half_even_def Let_def)
  show ?thesis unfolding cost_5_46_raw float_round2.simps c by (simp add: lit_def)
qed

lemma lit_45_2: "lit (452 / 10) = 3180667236830413 / 2 ^ 46"
  unfolding lit_def
  by (rule round53_at [where q = "- 47" and m = 6361334473660826])
     (simp_all add: round_half_even_def Let_def power_int_minus_divide)

lemma lit_120_5: "lit (1205 / 10) = 241 / 2 ^ 1"
  unfolding lit_def
  by (rule round53_at [where q = "- 46" and m = 8479433673408512])
     (simp_all add: round_half_even_def Let_def power_int_minus_divide)

lemma lit_45_3: "lit (453 / 10) = 3187704111248179 / 2 ^ 46"
  unfolding lit_def
  by (rule round53_at [where q = "- 47" and m = 6375408222496358])
     (simp_all add: round_half_even_def Let_def power_int_minus_divide)

lemma lit_30_2: "lit (302 / 10) = 8500544296661811 / 2 ^ 48"
  unfolding lit_def
  by (rule round53_at [where q = "- 48" and m = 8500544296661811])
     (simp_all add: round_half_even_def Let_def power_int_minus_divide)

lemma mass_45_2_raw:
  "fmul (Finite (3180667236830413 / 2 ^ 46)) (Finite (4914327913386685 / 2 ^ 53)) = Finite (6941488177658693 / 2 ^ 48)"
  by (rule fmul_at [where q = "- 48" and m = 6941488177658693])
     (simp_all add: round_half_even_def Let_def power_int_minus_divide)

lemma mass_45_2:
  "float_round2 (fmul (Finite (3180667236830413 / 2 ^ 46)) (Finite (4914327913386685 / 2 ^ 53))) = Finite (lit (2466 / 100))"
proof -
  have c: "cents (6941488177658693 / 2 ^ 48) = 2466"
    by (simp add: cents_def round_half_even_def Let_def)
  show ?thesis unfolding mass_45_2_raw float_round2.simps c by (simp add: lit_def)
qed

lemma mass_45_2_solid_raw:
  "fmul (Finite (3180667236830413 / 2 ^ 46)) (Finite (5584463537939415 / 2 ^ 52)) = Finite (246501710854357 / 2 ^ 42)"
  by (rule fmul_at [where q = "- 47" and m = 7888054747339424])
     (simp_all add: round_half_even_def Let_def power_int_minus_divide)

lemma mass_45_2_solid:
  "float_round2 (fmul (Finite (3180667236830413 / 2 ^ 46)) (Finite (5584463537939415 / 2 ^ 52))) = Finite (lit (5605 / 100))"
proof -
  have c: "cents (246501710854357 / 2 ^ 42) = 5605"
    by (simp add: cents_def round_half_even_def Let_def)
  show ?thesis unfolding mass_45_2_solid_raw float_round2.simps c by (simp add: lit_def)
qed

lemma lit_24_66: "lit (2466 / 100) = 6941172925684777 / 2 ^ 48"
  unfolding lit_def
  by (rule round53_at [where q = "- 48" and m = 6941172925684777])
     (simp_all add: round_half_even_def Let_def power_int_minus_divide)

lemma lit_56_05: "lit (5605 / 100) = 3944168111158067 / 2 ^ 46"
  unfolding lit_def
  by (rule round53_at [where q = "- 47" and m = 7888336222316134])
     (simp_all add: round_half_even_def Let_def power_int_minus_divide)

section \<open>Mass\<close>

lemma calculate_mass_unfold:
  "calculate_mass self v mat i = float_round2 (fmul (Finite v) (effective_density self mat i))"
  by (simp add: calculate_mass_def)

lemma effective_density_pla:
  "effective_density pricing_engine ''PLA'' i
     = fmul (Finite (lit (124 / 100)))
         (fadd (Finite (lit (3 / 10))) (fmul (Finite (lit (7 / 10))) (int_truediv i 100)))"
  by (simp add: effective_density_def pricing_engine_def init_engine_def material_table_def)

lemma effective_density_pla_20:
  "effective_density pricing_engine ''PLA'' 20 = Finite (4914327913386685 / 2 ^ 53)"
  by (simp only: effective_density_pla scaled_density_20)

lemma effective_density_pla_100:
  "effective_density pricing_engine ''PLA'' 100 = Finite (5584463537939415 / 2 ^ 52)"
  by (simp only: effective_density_pla scaled_density_100)





section \<open>Print time\<close>








section \<open>Unknown materials\<close>

lemma unknown_material_lookup:
  "map_of (materials pricing_engine) ''XYZ'' = None"
  by (simp add: pricing_engine_def init_engine_def material_table_def)

lemma effective_density_unknown:
  "effective_density pricing_engine ''XYZ'' i
     = fmul (Finite (lit (124 / 100)))
         (fadd (Finite (lit (3 / 10))) (fmul (Finite (lit (7 / 10))) (int_truediv i 100)))"
  by (simp add: effective_density_def pricing_engine_def init_engine_def material_table_def)

lemma effective_density_unknown_20:
  "effective_density pricing_engine ''XYZ'' 20 = Finite (4914327913386685 / 2 ^ 53)"
  by (simp only: effective_density_unknown scaled_density_20)

lemma effective_density_unknown_100:
  "effective_density pricing_engine ''XYZ'' 100 = Finite (5584463537939415 / 2 ^ 52)"
  by (simp only: effective_density_unknown scaled_density_100)

lemma material_cost_unknown:
  "calculate_material_cost pricing_engine m ''XYZ'' = float_round2 (fmul m (Finite (lit (2 / 100))))"
  by (simp add: calculate_material_cost_def pricing_engine_def init_engine_def
      material_table_def)

text \<open>
  C8, as stated: for a material the table does not have and a positive volume, the cost
  is finite and positive. It is not positive for 0.4 cm3 at 20 percent infill: the mass is
  0.22 g and the cost, 0.0044 USD before rounding, is returned as 0. It is not finite for
  a volume of 7 * 2 ^ 1021 cm3 at 100 percent infill: the product of volume and density
  is beyond the largest binary64 number.
\<close>

theorem unknown_material_cost_counterexample:
  "map_of (materials pricing_engine) ''XYZ'' = None
   \<and> 0 < lit (4 / 10)
   \<and> calculate_mass pricing_engine (lit (4 / 10)) ''XYZ'' 20 = Finite (lit (22 / 100))
   \<and> calculate_material_cost pricing_engine
        (calculate_mass pricing_engine (lit (4 / 10)) ''XYZ'' 20) ''XYZ'' = Finite 0
   \<and> (0::real) < 7 * 2 ^ 1021
   \<and> calculate_material_cost pricing_engine
        (calculate_mass pricing_engine (7 * 2 ^ 1021) ''XYZ'' 100) ''XYZ'' = NonFinite"
proof -
  have v: "0 < lit (4 / 10)" unfolding lit_0_4 by simp
  have m: "calculate_mass pricing_engine (lit (4 / 10)) ''XYZ'' 20 = Finite (lit (22 / 100))"
    by (simp only: calculate_mass_unfold effective_density_unknown_20 lit_0_4 mass_0_4)
  have "float_round2 (fmul (Finite (lit (22 / 100))) (Finite (lit (2 / 100)))) = Finite 0"
    unfolding lit_0_22 lit_0_02 cost_0_22 by (simp add: lit_def round53_zero)
  then have c: "calculate_material_cost pricing_engine
        (calculate_mass pricing_engine (lit (4 / 10)) ''XYZ'' 20) ''XYZ'' = Finite 0"
    by (simp only: m material_cost_unknown)
  have "to_float (7 * 2 ^ 1021 * (5584463537939415 / 2 ^ 52)) = NonFinite"
    by (rule to_float_overflow) simp
  then have "calculate_mass pricing_engine (7 * 2 ^ 1021) ''XYZ'' 100 = NonFinite"
    by (simp add: calculate_mass_unfold effective_density_unknown_100)
  then have o: "calculate_material_cost pricing_engine
        (calculate_mass pricing_engine (7 * 2 ^ 1021) ''XYZ'' 100) ''XYZ'' = NonFinite"
    by (simp add: material_cost_unknown)
  from unknown_material_lookup v m c o show ?thesis by simp
qed

text \<open>
  C8, amended. For a material the table does not have, mass and cost are computed, with
  no error, from the default density and the default cost per gram. For a volume, a
  default density and a default cost per gram between 0 and 10 ^ 100 and an infill
  between 0 and 100 the cost is finite and not negative, and the cost is positive
  whenever the product of mass and cost per gram, before it is rounded to two decimals,
  is finite and above 0.005.
\<close>

theorem unknown_material_defaults:
  assumes "map_of (materials self) mat = None"
  shows "calculate_mass self v mat i
           = float_round2 (fmul (Finite v) (fmul (Finite (default_density self))
               (fadd (Finite (lit (3 / 10)))
                  (fmul (Finite (lit (7 / 10))) (int_truediv i 100)))))
    \<and> calculate_material_cost self m mat
           = float_round2 (fmul m (Finite (default_cost_per_gram self)))
    \<and> (0 \<le> v \<and> v \<le> 10 ^ 100 \<and> 0 \<le> i \<and> i \<le> 100
        \<and> 0 \<le> default_density self \<and> default_density self \<le> 10 ^ 100
        \<and> 0 \<le> default_cost_per_gram self \<and> default_cost_per_gram self \<le> 10 ^ 100
          \<longrightarrow> (\<exists>c. calculate_material_cost self (calculate_mass self v mat i) mat = Finite c
                 \<and> 0 \<le> c))
    \<and> (fmul (calculate_mass self v mat i) (Finite (default_cost_per_gram self)) = Finite p
        \<and> 1 / 200 < p
          \<longrightarrow> (\<exists>c. calculate_material_cost self (calculate_mass self v mat i) mat = Finite c
                 \<and> 0 < c))"
proof -
  let ?dd = "default_density self" and ?dc = "default_cost_per_gram self"
  have mass: "calculate_mass self v mat i
      = float_round2 (fmul (Finite v) (fmul (Finite ?dd)
          (fadd (Finite (lit (3 / 10))) (fmul (Finite (lit (7 / 10))) (int_truediv i 100)))))"
    using assms by (simp add: calculate_mass_def effective_density_def)
  have cost: "calculate_material_cost self x mat = float_round2 (fmul x (Finite ?dc))"
    for x using assms by (simp add: calculate_material_cost_def)
  have nonneg: "\<exists>c. calculate_material_cost self (calculate_mass self v mat i) mat = Finite c
      \<and> 0 \<le> c"
    if v: "0 \<le> v" "v \<le> 10 ^ 100" and i: "0 \<le> i" "i \<le> 100"
      and dd: "0 \<le> ?dd" "?dd \<le> 10 ^ 100" and dc: "0 \<le> ?dc" "?dc \<le> 10 ^ 100"
  proof -
    from i obtain t1 where t1: "int_truediv i 100 = Finite t1" "0 \<le> t1" "t1 \<le> 2"
      by (rule int_truediv_percent)
    have l7: "0 \<le> lit (7 / 10)" "lit (7 / 10) \<le> 2"
      using lit_bounded [of "7 / 10"] by simp_all
    have l3: "0 \<le> lit (3 / 10)" "lit (3 / 10) \<le> 1"
      using lit_bounded [of "3 / 10"] by simp_all
    have "2 * (2 * 2) < (2::real) ^ 1024" by simp
    with l7 t1(2,3) obtain t2 where t2: "fmul (Finite (lit (7 / 10))) (Finite t1) = Finite t2"
      "0 \<le> t2" "t2 \<le> 2 * (2 * 2)"
      by (rule fmul_bounded)
    have "2 * (1 + 2 * (2 * 2)) < (2::real) ^ 1024" by simp
    with l3 t2(2,3) obtain t3 where t3: "fadd (Finite (lit (3 / 10))) (Finite t2) = Finite t3"
      "0 \<le> t3" "t3 \<le> 2 * (1 + 2 * (2 * 2))"
      by (rule fadd_bounded)
    have "2 * (10 ^ 100 * (2 * (1 + 2 * (2 * 2)))) < (2::real) ^ 1024" by simp
    with dd t3(2,3) obtain e where e: "fmul (Finite ?dd) (Finite t3) = Finite e"
      "0 \<le> e" "e \<le> 2 * (10 ^ 100 * (2 * (1 + 2 * (2 * 2))))"
      by (rule fmul_bounded)
    from e(3) have e': "e \<le> 36 * 10 ^ 100" by simp
    have "2 * (10 ^ 100 * (36 * 10 ^ 100)) < (2::real) ^ 1024" by simp
    with v e(2) e' obtain g where g: "fmul (Finite v) (Finite e) = Finite g"
      "0 \<le> g" "g \<le> 2 * (10 ^ 100 * (36 * 10 ^ 100))"
      by (rule fmul_bounded)
    from g(2,3) obtain w where w: "float_round2 (Finite g) = Finite w"
      "0 \<le> w" "w \<le> 2 * (2 * (10 ^ 100 * (36 * 10 ^ 100)) + 1 / 200)"
      by (rule float_round2_bounded)
    from w(3) have w': "w \<le> 145 * 10 ^ 200" by simp
    have "2 * (145 * 10 ^ 200 * 10 ^ 100) < (2::real) ^ 1024" by simp
    with w(2) w' dc obtain k where k: "fmul (Finite w) (Finite ?dc) = Finite k"
      "0 \<le> k" "k \<le> 2 * (145 * 10 ^ 200 * 10 ^ 100)"
      by (rule fmul_bounded)
    from k(2,3) obtain c where c: "float_round2 (Finite k) = Finite c" "0 \<le> c"
      by (rule float_round2_bounded)
    have "calculate_mass self v mat i = Finite w"
      by (simp only: mass t1 t2 t3 e g w)
    then have "calculate_material_cost self (calculate_mass self v mat i) mat = Finite c"
      by (simp only: cost k c)
    with c(2) show ?thesis by blast
  qed
  have pos: "\<exists>c. calculate_material_cost self (calculate_mass self v mat i) mat = Finite c
      \<and> 0 < c"
    if p: "fmul (calculate_mass self v mat i) (Finite ?dc) = Finite p" "1 / 200 < p"
  proof -
    have "1 \<le> cents p" using p(2) by (rule cents_pos)
    then have "1 / 100 \<le> real_of_int (cents p) / 100" by simp
    moreover have "2 powi (- 1074) \<le> (1 / 100 :: real)"
      by (simp add: power_int_minus_divide)
    ultimately have "2 powi (- 1074) \<le> real_of_int (cents p) / 100" by (rule order_trans [rotated])
    then have "0 < round53 (real_of_int (cents p) / 100)" by (rule round53_pos)
    moreover have "calculate_material_cost self (calculate_mass self v mat i) mat
        = Finite (round53 (real_of_int (cents p) / 100))"
      by (simp only: cost p(1) float_round2.simps)
    ultimately show ?thesis by blast
  qed
  show ?thesis using mass cost nonneg pos by blast
qed

text \<open>
  10 cm3 of an unknown material at 20 percent infill: the mass is 5.46 g, the product
  with the default cost per gram is 0.1092 and the cost 0.11 USD.
\<close>

theorem unknown_material_defaults_witness:
  "map_of (materials pricing_engine) ''XYZ'' = None
   \<and> calculate_mass pricing_engine 10 ''XYZ'' 20 = Finite (lit (546 / 100))
   \<and> fmul (Finite (lit (546 / 100))) (Finite (default_cost_per_gram pricing_engine))
       = Finite (7868689268941731 / 2 ^ 56)
   \<and> (\<exists>c. calculate_material_cost pricing_engine
              (calculate_mass pricing_engine 10 ''XYZ'' 20) ''XYZ'' = Finite c \<and> 0 \<le> c)
   \<and> (\<exists>c. calculate_material_cost pricing_engine
              (calculate_mass pricing_engine 10 ''XYZ'' 20) ''XYZ'' = Finite c \<and> 0 < c)
   \<and> calculate_material_cost pricing_engine
        (calculate_mass pricing_engine 10 ''XYZ'' 20) ''XYZ'' = Finite (lit (11 / 100))"
proof -
  have "default_density pricing_engine = lit (124 / 100)"
    by (simp add: pricing_engine_def init_engine_def)
  then have dd: "default_density pricing_engine = 5584463537939415 / 2 ^ 52"
    by (simp only: lit_1_24)
  have "default_cost_per_gram pricing_engine = lit (2 / 100)"
    by (simp add: pricing_engine_def init_engine_def)
  then have dc: "default_cost_per_gram pricing_engine = 5764607523034235 / 2 ^ 58"
    by (simp only: lit_0_02)
  note w = unknown_material_defaults [OF unknown_material_lookup,
      of 10 20 "Finite (lit (546 / 100))" "7868689268941731 / 2 ^ 56"]
  have a: "calculate_mass pricing_engine 10 ''XYZ'' 20 = Finite (lit (546 / 100))"
    by (simp only: calculate_mass_unfold effective_density_unknown_20 mass_10)
  have r: "fmul (Finite (lit (546 / 100))) (Finite (default_cost_per_gram pricing_engine))
       = Finite (7868689268941731 / 2 ^ 56)"
    by (simp only: dc lit_5_46 cost_5_46_raw)
  have b: "(0::real) \<le> 10 \<and> (10::real) \<le> 10 ^ 100 \<and> (0::int) \<le> 20 \<and> (20::int) \<le> 100
      \<and> 0 \<le> default_density pricing_engine \<and> default_density pricing_engine \<le> 10 ^ 100
      \<and> 0 \<le> default_cost_per_gram pricing_engine
      \<and> default_cost_per_gram pricing_engine \<le> 10 ^ 100"
    by (simp add: dd dc)
  with w have n: "\<exists>c. calculate_material_cost pricing_engine
              (calculate_mass pricing_engine 10 ''XYZ'' 20) ''XYZ'' = Finite c \<and> 0 \<le> c"
    by blast
  have x: "fmul (calculate_mass pricing_engine 10 ''XYZ'' 20)
          (Finite (default_cost_per_gram pricing_engine)) = Finite (7868689268941731 / 2 ^ 56)"
    by (simp only: a r)
  have y: "1 / 200 < (7868689268941731 / 2 ^ 56 :: real)" by simp
  from w x y have p: "\<exists>c. calculate_material_cost pricing_engine
              (calculate_mass pricing_engine 10 ''XYZ'' 20) ''XYZ'' = Finite c \<and> 0 < c"
    by blast
  have c: "calculate_material_cost pricing_engine
        (calculate_mass pricing_engine 10 ''XYZ'' 20) ''XYZ'' = Finite (lit (11 / 100))"
    by (simp only: a material_cost_unknown lit_5_46 lit_0_02 cost_5_46)
  from unknown_material_lookup a r n p c show ?thesis by blast
qed

section \<open>Full pricing\<close>

lemma calculate_full_pricing_returns:
  assumes "fdm_print_speed self \<noteq> 0"
  shows "calculate_full_pricing self v s bb mat infill_arg =
     (let sett = get_recommended_settings s bb;
          infill = (case infill_arg of None \<Rightarrow> infill_percentage sett | Some i \<Rightarrow> i);
          mass = calculate_mass self v mat infill
      in Inr \<lparr> mass_g = mass,
               material_cost_usd = calculate_material_cost self mass mat,
               est_print_time_hours =
                 py_round2 (total_time (fdm_print_speed self) v s infill),
               recommended_settings = sett,
               material_used = mat \<rparr>)"
  using assms by (simp add: calculate_full_pricing_def estimate_print_time_def Let_def)

text \<open>
  C5. Called with no explicit infill (and a print speed that is not zero, so that a
  result is returned), the mass and the print time of the result are those computed
  with the infill percentage of the recommended settings of the same result.
\<close>

theorem default_infill_consistent:
  assumes "fdm_print_speed self \<noteq> 0"
  shows "\<exists>r. calculate_full_pricing self v s bb mat None = Inr r
    \<and> mass_g r = calculate_mass self v mat (infill_percentage (recommended_settings r))
    \<and> Inr (est_print_time_hours r)
        = estimate_print_time self v s (infill_percentage (recommended_settings r))
    \<and> material_cost_usd r = calculate_material_cost self (mass_g r) mat"
  using assms
  by (simp add: calculate_full_pricing_returns estimate_print_time_def Let_def)

theorem default_infill_consistent_witness:
  "fdm_print_speed pricing_engine \<noteq> 0
   \<and> (\<exists>r. calculate_full_pricing pricing_engine part_volume 6 part_bbox ''PLA'' None = Inr r
    \<and> mass_g r = calculate_mass pricing_engine part_volume ''PLA''
                   (infill_percentage (recommended_settings r))
    \<and> Inr (est_print_time_hours r)
        = estimate_print_time pricing_engine part_volume 6
            (infill_percentage (recommended_settings r))
    \<and> material_cost_usd r = calculate_material_cost pricing_engine (mass_g r) ''PLA'')"
proof -
  have h: "fdm_print_speed pricing_engine \<noteq> 0"
    by (simp add: pricing_engine_def init_engine_def)
  from h default_infill_consistent [OF h, of part_volume 6 part_bbox "''PLA''"]
  show ?thesis by blast
qed

text \<open>
  C10. The recommended settings of the result come from the score and the bounding box
  alone: two calls that differ in the explicit infill return the same settings (print
  speed not zero, so that both return), while the mass is computed with the infill in
  force, the explicit one when given.
\<close>

theorem settings_ignore_explicit_infill:
  assumes "fdm_print_speed self \<noteq> 0"
  shows "\<exists>r1 r2. calculate_full_pricing self v s bb mat i1 = Inr r1
    \<and> calculate_full_pricing self v s bb mat i2 = Inr r2
    \<and> recommended_settings r1 = recommended_settings r2
    \<and> recommended_settings r1 = get_recommended_settings s bb
    \<and> mass_g r1 = calculate_mass self v mat
        (case i1 of None \<Rightarrow> infill_percentage (get_recommended_settings s bb) | Some i \<Rightarrow> i)"
  using assms by (simp add: calculate_full_pricing_returns Let_def)

text \<open>
  The part priced with an explicit infill of 100: the settings still report 20, and the
  mass is that of infill 100, 56.05 g, not that of infill 20, 24.66 g.
\<close>

theorem settings_ignore_explicit_infill_witness:
  "fdm_print_speed pricing_engine \<noteq> 0
   \<and> (\<exists>r1 r2. calculate_full_pricing pricing_engine part_volume 6 part_bbox ''PLA'' (Some 100) = Inr r1
    \<and> calculate_full_pricing pricing_engine part_volume 6 part_bbox ''PLA'' None = Inr r2
    \<and> recommended_settings r1 = recommended_settings r2
    \<and> infill_percentage (recommended_settings r1) = 20
    \<and> mass_g r1 = calculate_mass pricing_engine part_volume ''PLA'' 100
    \<and> mass_g r1 \<noteq> calculate_mass pricing_engine part_volume ''PLA'' 20)"
proof -
  have h: "fdm_print_speed pricing_engine \<noteq> 0"
    by (simp add: pricing_engine_def init_engine_def)
  have s: "infill_percentage (get_recommended_settings 6 part_bbox) = 20"
    unfolding part_bbox_def lit_120_5 lit_45_3 lit_30_2 by (simp add: Let_def)
  have m100: "calculate_mass pricing_engine part_volume ''PLA'' 100 = Finite (lit (5605 / 100))"
    by (simp only: calculate_mass_unfold effective_density_pla_100 part_volume_def lit_45_2
        mass_45_2_solid)
  have m20: "calculate_mass pricing_engine part_volume ''PLA'' 20 = Finite (lit (2466 / 100))"
    by (simp only: calculate_mass_unfold effective_density_pla_20 part_volume_def lit_45_2
        mass_45_2)
  have m: "calculate_mass pricing_engine part_volume ''PLA'' 100
      \<noteq> calculate_mass pricing_engine part_volume ''PLA'' 20"
    unfolding m100 m20 lit_56_05 lit_24_66 by simp
  from settings_ignore_explicit_infill
    [OF h, of part_volume 6 part_bbox "''PLA''" "Some 100" None]
  obtain r1 r2 where
    "calculate_full_pricing pricing_engine part_volume 6 part_bbox ''PLA'' (Some 100) = Inr r1"
    "calculate_full_pricing pricing_engine part_volume 6 part_bbox ''PLA'' None = Inr r2"
    "recommended_settings r1 = recommended_settings r2"
    "recommended_settings r1 = get_recommended_settings 6 part_bbox"
    "mass_g r1 = calculate_mass pricing_engine part_volume ''PLA'' 100"
    by auto
  with h s m show ?thesis by auto
qed

end
